theory Spec2Isabelle
  imports Complex_Main "HOL-Library.Word"
begin

unbundle bit_operations_syntax

section \<open>Python values and exceptions\<close>

text \<open>
  The monitor is a Python program. Its integers are unbounded (\<open>int\<close>), the results
  of the true division \<open>/\<close> are modelled as \<open>real\<close> numbers (the rounding of the
  binary floating point result, and its overflow on quotients beyond the range of a
  float, are not modelled), and every exception that the code can raise is a value of
  \<open>py_error\<close>: a computation that may raise has the type \<open>py_error + 'a\<close>, with
  \<open>Inl\<close> for the exception.
\<close>

datatype py_error = TypeError | ValueError | ZeroDivisionError | IndexError | KeyError | OSError

definition bind_err :: "py_error + 'a \<Rightarrow> ('a \<Rightarrow> py_error + 'b) \<Rightarrow> py_error + 'b" where
  "bind_err m f = (case m of Inl e \<Rightarrow> Inl e | Inr x \<Rightarrow> f x)"

text \<open>True division of two Python integers: \<open>a / b\<close>.\<close>

definition py_truediv :: "int \<Rightarrow> int \<Rightarrow> py_error + real" where
  "py_truediv a b = (if b = 0 then Inl ZeroDivisionError else Inr (real_of_int a / real_of_int b))"

text \<open>
  \<open>xs[i]\<close> for an index that is not negative: IndexError beyond the end of the list
  (\<open>deltas[3]\<close> on fewer than four elements).
\<close>

definition py_index :: "'a list \<Rightarrow> nat \<Rightarrow> py_error + 'a" where
  "py_index xs i = (if i < length xs then Inr (xs ! i) else Inl IndexError)"

section \<open>Strings: strip, split and int\<close>

text \<open>
  \<open>string\<close> is a list of bytes, so only ASCII text is modelled. \<open>py_isspace\<close> holds of
  the ASCII characters that Python's \<open>str.isspace\<close> accepts: tab, line feed, vertical tab,
  form feed, carriage return, the separators 0x1C to 0x1F, and the space.
\<close>

definition py_isspace :: "char \<Rightarrow> bool" where
  "py_isspace c = (c \<in> set [CHR 0x09, CHR 0x0A, CHR 0x0B, CHR 0x0C, CHR 0x0D,
                              CHR 0x1C, CHR 0x1D, CHR 0x1E, CHR 0x1F, CHR 0x20])"

text \<open>\<open>s.strip()\<close>: whitespace removed at both ends.\<close>

definition py_strip :: "string \<Rightarrow> string" where
  "py_strip s = rev (dropWhile py_isspace (rev (dropWhile py_isspace s)))"

text \<open>
  \<open>s.split()\<close>: the maximal runs of non-whitespace characters, in order. The first
  argument of \<open>split_from\<close> is the word read so far.
\<close>

fun split_from :: "string \<Rightarrow> string \<Rightarrow> string list" where
  "split_from w [] = (if w = [] then [] else [w])"
| "split_from w (c # cs) =
     (if py_isspace c then (if w = [] then split_from [] cs else w # split_from [] cs)
      else split_from (w @ [c]) cs)"

definition py_split :: "string \<Rightarrow> string list" where
  "py_split s = split_from [] s"

text \<open>\<open>key.rstrip(':')\<close>: every trailing colon removed.\<close>

definition py_rstrip_colon :: "string \<Rightarrow> string" where
  "py_rstrip_colon s = rev (dropWhile (\<lambda>c. c = CHR '':'') (rev s))"

text \<open>
  \<open>sep.split\<close> with a separator character, as in \<open>stdout.split('=')\<close>: the pieces
  between the separators, empty ones included.
\<close>

fun split_on :: "char \<Rightarrow> string \<Rightarrow> string \<Rightarrow> string list" where
  "split_on sep w [] = [w]"
| "split_on sep w (c # cs) =
     (if c = sep then w # split_on sep [] cs else split_on sep (w @ [c]) cs)"

text \<open>\<open>pat in s\<close> on strings: \<open>pat\<close> occurs in \<open>s\<close>.\<close>

fun contains_str :: "string \<Rightarrow> string \<Rightarrow> bool" where
  "contains_str pat [] = (pat = [])"
| "contains_str pat (c # cs) = (take (length pat) (c # cs) = pat \<or> contains_str pat cs)"

text \<open>
  \<open>int(s)\<close> and \<open>int(s, 0)\<close> on an ASCII string. Whitespace at both ends is
  ignored (for \<open>int\<close> this is the whitespace of C: space, tab, line feed, vertical tab,
  form feed, carriage return), then comes an optional sign, then the digits, where
  single underscores may stand between two digits. \<open>digit_of\<close> is the value of a
  character as a digit of the base, and the flag of \<open>parse_digits\<close> says whether the
  character just read was a digit. With base 0 the base is read off the literal:
  \<open>0x\<close>, \<open>0o\<close> and \<open>0b\<close> (in either case) announce base 16, 8 and 2 and may be
  followed by one underscore; anything else is decimal, where a literal that starts
  with 0 must be zero. Everything else, the empty string included, raises ValueError.
  (CPython's limit on the number of digits of a decimal literal, 4300 by default, is
  not modelled.)
\<close>

definition c_isspace :: "char \<Rightarrow> bool" where
  "c_isspace c = (c \<in> set [CHR 0x09, CHR 0x0A, CHR 0x0B, CHR 0x0C, CHR 0x0D, CHR 0x20])"

definition digit_of :: "nat \<Rightarrow> char \<Rightarrow> nat option" where
  "digit_of base c =
     (let n = (of_char c :: nat);
          d = (if 48 \<le> n \<and> n \<le> 57 then n - 48
               else if 97 \<le> n \<and> n \<le> 122 then n - 87
               else if 65 \<le> n \<and> n \<le> 90 then n - 55
               else base)
      in if d < base then Some d else None)"

fun parse_digits :: "nat \<Rightarrow> bool \<Rightarrow> nat \<Rightarrow> string \<Rightarrow> nat option" where
  "parse_digits base after_digit acc [] = (if after_digit then Some acc else None)"
| "parse_digits base after_digit acc (c # cs) =
     (case digit_of base c of
        Some d \<Rightarrow> parse_digits base True (base * acc + d) cs
      | None \<Rightarrow>
          if c = CHR ''_'' \<and> after_digit then parse_digits base False acc cs else None)"

definition strip_sign :: "string \<Rightarrow> bool \<times> string" where
  "strip_sign s =
     (let t = rev (dropWhile c_isspace (rev (dropWhile c_isspace s)))
      in case t of
           [] \<Rightarrow> (False, [])
         | c # cs \<Rightarrow>
             if c = CHR ''-'' then (True, cs) else if c = CHR ''+'' then (False, cs) else (False, t))"

definition signed :: "bool \<Rightarrow> nat option \<Rightarrow> py_error + int" where
  "signed negative magnitude =
     (case magnitude of
        None \<Rightarrow> Inl ValueError
      | Some n \<Rightarrow> Inr (if negative then - int n else int n))"

definition py_int :: "string \<Rightarrow> py_error + int" where
  "py_int s = (case strip_sign s of (negative, body) \<Rightarrow> signed negative (parse_digits 10 False 0 body))"

definition prefixed_digits :: "nat \<Rightarrow> string \<Rightarrow> nat option" where
  "prefixed_digits base rest =
     parse_digits base False 0 (case rest of [] \<Rightarrow> [] | c # cs \<Rightarrow> if c = CHR ''_'' then cs else rest)"

definition py_int0 :: "string \<Rightarrow> py_error + int" where
  "py_int0 s =
     (case strip_sign s of (negative, body) \<Rightarrow>
        signed negative
          (case body of
             a # b # rest \<Rightarrow>
               if a = CHR ''0'' \<and> (b = CHR ''x'' \<or> b = CHR ''X'') then prefixed_digits 16 rest
               else if a = CHR ''0'' \<and> (b = CHR ''o'' \<or> b = CHR ''O'') then prefixed_digits 8 rest
               else if a = CHR ''0'' \<and> (b = CHR ''b'' \<or> b = CHR ''B'') then prefixed_digits 2 rest
               else if a = CHR ''0'' then
                 (case parse_digits 10 False 0 body of
                    Some n \<Rightarrow> if n = 0 then Some 0 else None
                  | None \<Rightarrow> None)
               else parse_digits 10 False 0 body
           | _ \<Rightarrow> parse_digits 10 False 0 body))"

text \<open>\<open>[int(value) for value in words]\<close>: the first failing conversion raises.\<close>

fun int_each :: "string list \<Rightarrow> py_error + int list" where
  "int_each [] = Inr []"
| "int_each (w # ws) =
     (case py_int w of
        Inl e \<Rightarrow> Inl e
      | Inr n \<Rightarrow> (case int_each ws of Inl e \<Rightarrow> Inl e | Inr ns \<Rightarrow> Inr (n # ns)))"

section \<open>The system the monitor reads\<close>

text \<open>
  What one tick can observe of the machine. \<open>files\<close> maps a path to the lines of the
  file (without their terminators, which \<open>strip\<close> and \<open>split\<close> discard anyway);
  a path outside its domain cannot be opened (IOError). The other fields are the
  outcomes of the calls into libraries and subprocesses:
  \<^item> \<open>ip_route\<close>: the outcome of \<open>subprocess.run(['ip', 'route', 'get', '1'])\<close>,
    the return code and the lines of the standard output, or the exception raised;
  \<^item> \<open>sensor_temperature\<close>: the reading of the CPU temperature sensor;
  \<^item> \<open>shutil_disk_usage\<close>: \<open>shutil.disk_usage("/")\<close>, the triple (total, used, free)
    or the exception it raised;
  \<^item> \<open>vcgencmd\<close>: the outcome of \<open>subprocess.run(['vcgencmd', 'get_throttled'])\<close>,
    the return code and the standard output, or the exception raised.
\<close>

record system =
  files :: "string \<rightharpoonup> string list"
  ip_route :: "py_error + int \<times> string list"
  sensor_temperature :: real
  shutil_disk_usage :: "py_error + int \<times> int \<times> int"
  vcgencmd :: "py_error + int \<times> string"

section \<open>RaspberryMonitor\<close>

record RaspberryMonitor =
  prev_cpu_stats :: "int list option"
  prev_net_stats :: "string \<rightharpoonup> int"
  mem_info :: "string \<rightharpoonup> int"
  net_interface :: string

text \<open>
  \<open>get_active_network_interface\<close>: the first line of the output that contains
  \<open>dev\<close> decides. \<open>parts[parts.index('dev') + 1]\<close> raises ValueError when no word of
  the line is \<open>dev\<close> and IndexError when \<open>dev\<close> is the last word; these, and an
  exception of the subprocess, are caught, and then, as for a return code other than
  0 or an output without \<open>dev\<close>, the result is \<open>wlan0\<close>.
\<close>

fun interface_of_route :: "string list \<Rightarrow> string" where
  "interface_of_route [] = ''wlan0''"
| "interface_of_route (line # later) =
     (if contains_str ''dev'' line
      then (case dropWhile (\<lambda>w. w \<noteq> ''dev'') (py_split line) of
              _ # name # _ \<Rightarrow> name
            | _ \<Rightarrow> ''wlan0'')
      else interface_of_route later)"

definition get_active_network_interface :: "system \<Rightarrow> string" where
  "get_active_network_interface sys =
     (case ip_route sys of
        Inl e \<Rightarrow> ''wlan0''
      | Inr (returncode, out) \<Rightarrow> if returncode = 0 then interface_of_route out else ''wlan0'')"

text \<open>\<open>get_first_line\<close>: the stripped first line of the file, or the empty string on IOError.\<close>

definition get_first_line :: "system \<Rightarrow> string \<Rightarrow> string" where
  "get_first_line sys path =
     (case files sys path of
        None \<Rightarrow> []
      | Some ls \<Rightarrow> py_strip (case ls of [] \<Rightarrow> [] | l # _ \<Rightarrow> l))"

text \<open>
  \<open>get_memory_info\<close>: each line is split; \<open>key, value, *_ = line.split()\<close> raises
  ValueError on fewer than two words, and so does \<open>int(value)\<close> on a malformed number.
  Only IOError is caught, giving the empty dictionary.
\<close>

fun parse_meminfo :: "(string \<rightharpoonup> int) \<Rightarrow> string list \<Rightarrow> py_error + (string \<rightharpoonup> int)" where
  "parse_meminfo memory_info [] = Inr memory_info"
| "parse_meminfo memory_info (line # rest) =
     (case py_split line of
        key # value # _ \<Rightarrow>
          (case py_int value of
             Inl e \<Rightarrow> Inl e
           | Inr n \<Rightarrow> parse_meminfo (memory_info(py_rstrip_colon key \<mapsto> n)) rest)
      | _ \<Rightarrow> Inl ValueError)"

definition get_memory_info :: "system \<Rightarrow> py_error + (string \<rightharpoonup> int)" where
  "get_memory_info sys =
     (case files sys ''/proc/meminfo'' of
        None \<Rightarrow> Inr Map.empty
      | Some ls \<Rightarrow> parse_meminfo Map.empty ls)"

text \<open>\<open>__init__\<close> (the construction of the sensor object is not modelled).\<close>

definition RaspberryMonitor_init :: "system \<Rightarrow> py_error + RaspberryMonitor" where
  "RaspberryMonitor_init sys =
     bind_err (get_memory_info sys) (\<lambda>memory_info.
       Inr \<lparr>prev_cpu_stats = None,
            prev_net_stats = [''rx'' \<mapsto> 0, ''tx'' \<mapsto> 0],
            mem_info = memory_info,
            net_interface = get_active_network_interface sys\<rparr>)"

text \<open>
  A method that changes the object returns its result, or the exception it raised,
  together with the object as it is when the method is left.
\<close>

definition get_network_speed ::
    "system \<Rightarrow> RaspberryMonitor \<Rightarrow> (py_error + real \<times> real) \<times> RaspberryMonitor" where
  "get_network_speed sys self =
     (let self1 = self\<lparr>net_interface := get_active_network_interface sys\<rparr> in
      case py_int (get_first_line sys
             (''/sys/class/net/'' @ net_interface self1 @ ''/statistics/rx_bytes'')) of
        Inl e \<Rightarrow> (Inl e, self1)
      | Inr rx_bytes \<Rightarrow>
     (case py_int (get_first_line sys
             (''/sys/class/net/'' @ net_interface self1 @ ''/statistics/tx_bytes'')) of
        Inl e \<Rightarrow> (Inl e, self1)
      | Inr tx_bytes \<Rightarrow>
     (case prev_net_stats self1 ''rx'' of
        None \<Rightarrow> (Inl KeyError, self1)
      | Some prev_rx \<Rightarrow>
     (case prev_net_stats self1 ''tx'' of
        None \<Rightarrow> (Inl KeyError, self1)
      | Some prev_tx \<Rightarrow>
          (Inr (real_of_int (rx_bytes - prev_rx) / 1024, real_of_int (tx_bytes - prev_tx) / 1024),
           self1\<lparr>prev_net_stats := (prev_net_stats self1)(''rx'' \<mapsto> rx_bytes, ''tx'' \<mapsto> tx_bytes)\<rparr>)))))"

text \<open>The first two lines of \<open>get_cpu_usage\<close>: the numbers after the first word of /proc/stat.\<close>

definition read_cpu_stats :: "system \<Rightarrow> py_error + int list" where
  "read_cpu_stats sys = int_each (drop 1 (py_split (get_first_line sys ''/proc/stat'')))"

text \<open>
  \<open>not self.prev_cpu_stats\<close> holds of \<open>None\<close> and of the empty list. The results
  \<open>0.0\<close> and \<open>0\<close> are both the real number 0.
\<close>

definition get_cpu_usage :: "system \<Rightarrow> RaspberryMonitor \<Rightarrow> (py_error + real) \<times> RaspberryMonitor" where
  "get_cpu_usage sys self =
     (case read_cpu_stats sys of
        Inl e \<Rightarrow> (Inl e, self)
      | Inr cpu_stats \<Rightarrow>
          if prev_cpu_stats self = None \<or> prev_cpu_stats self = Some []
          then (Inr 0, self\<lparr>prev_cpu_stats := Some cpu_stats\<rparr>)
          else
            (let deltas = map (\<lambda>(current, prev). current - prev)
                            (zip cpu_stats (the (prev_cpu_stats self)));
                 total_time = sum_list deltas
             in case py_index deltas 3 of
                  Inl e \<Rightarrow> (Inl e, self)
                | Inr idle_time \<Rightarrow>
                    (if total_time \<noteq> 0
                     then bind_err (py_truediv idle_time total_time) (\<lambda>q. Inr ((1 - q) * 100))
                     else Inr 0,
                     self\<lparr>prev_cpu_stats := Some cpu_stats\<rparr>)))"

definition get_cpu_temp :: "system \<Rightarrow> real" where
  "get_cpu_temp sys = sensor_temperature sys"

text \<open>\<open>self.mem_info.get('MemTotal', 1)\<close>: the default is used for a missing key only.\<close>

definition get_ram_usage :: "RaspberryMonitor \<Rightarrow> py_error + real" where
  "get_ram_usage self =
     (let total_memory = (case mem_info self ''MemTotal'' of None \<Rightarrow> 1 | Some t \<Rightarrow> t);
          available_memory = (case mem_info self ''MemAvailable'' of None \<Rightarrow> 0 | Some a \<Rightarrow> a);
          used_memory = total_memory - available_memory
      in bind_err (py_truediv used_memory total_memory) (\<lambda>q. Inr (q * 100)))"

text \<open>
  \<open>get_disk_usage\<close>: the whole body is inside \<open>try\<close>, and \<open>except Exception\<close> turns
  every exception into the result \<open>None\<close>.
\<close>

definition get_disk_usage :: "system \<Rightarrow> py_error + real option" where
  "get_disk_usage sys =
     (case bind_err (shutil_disk_usage sys) (\<lambda>(total, used, free).
             if total \<noteq> 0 then bind_err (py_truediv used total) (\<lambda>q. Inr (q * 100))
             else Inr 0) of
        Inl e \<Rightarrow> Inr None
      | Inr usage_percent \<Rightarrow> Inr (Some usage_percent))"

section \<open>PowerMonitor\<close>

record PowerMonitor =
  last_throttled :: "int option"

definition PowerMonitor_init :: PowerMonitor where
  "PowerMonitor_init = \<lparr>last_throttled = None\<rparr>"

text \<open>
  \<open>get_throttled_status\<close>: \<open>int(result.stdout.split('=')[1], 0)\<close> when the return
  code is 0. Every exception (of the subprocess, IndexError when the output has no
  \<open>=\<close>, ValueError when what follows is not an integer literal) is caught and gives
  \<open>None\<close>, as does a return code other than 0.
\<close>

definition get_throttled_status :: "system \<Rightarrow> int option" where
  "get_throttled_status sys =
     (case bind_err (vcgencmd sys) (\<lambda>(returncode, out).
             if returncode = 0
             then bind_err (py_index (split_on CHR ''='' [] out) 1) (\<lambda>field.
                  bind_err (py_int0 field) (\<lambda>n. Inr (Some n)))
             else Inr None) of
        Inl e \<Rightarrow> None
      | Inr r \<Rightarrow> r)"

subsection \<open>analyze_throttled\<close>

text \<open>
  The argument is what \<open>get_throttled_status\<close> returned: an integer, or \<open>None\<close> when
  the status could not be read. \<open>None & 0x1\<close> raises TypeError.
\<close>

definition analyze_throttled :: "int option \<Rightarrow> py_error + string" where
  "analyze_throttled throttled_value =
     (case throttled_value of
        None \<Rightarrow> Inl TypeError
      | Some v \<Rightarrow>
          Inr (if v AND 0x1 \<noteq> 0 then ''Undervolt''
               else if v AND 0x2 \<noteq> 0 then ''Freq cap''
               else if v AND 0x4 \<noteq> 0 then ''Throttled''
               else if v AND 0x8 \<noteq> 0 then ''Temp limit''
               else ''OK''))"

subsection \<open>get_power_status\<close>

text \<open>
  \<open>get_power_status\<close> adds and joins the results of \<open>analyze_throttled\<close> as if they
  were lists of strings, so the model keeps Python's dynamic types for them:
  \<open>+\<close> concatenates two strings or two lists and raises TypeError on a string and a
  list; a string or list is true when it is not empty; \<open>sep.join(x)\<close> joins the
  elements of a list of strings, or the characters of a string.
\<close>

datatype pyval = PStr string | PList "pyval list"

fun py_add :: "pyval \<Rightarrow> pyval \<Rightarrow> py_error + pyval" where
  "py_add (PStr a) (PStr b) = Inr (PStr (a @ b))"
| "py_add (PList a) (PList b) = Inr (PList (a @ b))"
| "py_add (PStr a) (PList b) = Inl TypeError"
| "py_add (PList a) (PStr b) = Inl TypeError"

fun py_truth :: "pyval \<Rightarrow> bool" where
  "py_truth (PStr s) = (s \<noteq> [])"
| "py_truth (PList xs) = (xs \<noteq> [])"

fun intercalate :: "string \<Rightarrow> string list \<Rightarrow> string" where
  "intercalate sep [] = []"
| "intercalate sep [x] = x"
| "intercalate sep (x # y # ys) = x @ sep @ intercalate sep (y # ys)"

fun str_items :: "pyval list \<Rightarrow> py_error + string list" where
  "str_items [] = Inr []"
| "str_items (PStr s # xs) = (case str_items xs of Inl e \<Rightarrow> Inl e | Inr ss \<Rightarrow> Inr (s # ss))"
| "str_items (PList l # xs) = Inl TypeError"

fun py_join :: "string \<Rightarrow> pyval \<Rightarrow> py_error + string" where
  "py_join sep (PStr s) = Inr (intercalate sep (map (\<lambda>c. [c]) s))"
| "py_join sep (PList xs) =
     (case str_items xs of Inl e \<Rightarrow> Inl e | Inr ss \<Rightarrow> Inr (intercalate sep ss))"

text \<open>
  The part of \<open>get_power_status\<close> after the stored value has been brought up to date
  (the two \<open>logging.info\<close> calls have no effect on the result and are left out).
\<close>

definition power_status_label :: "int \<Rightarrow> py_error + string" where
  "power_status_label throttled_value =
     bind_err (analyze_throttled (Some (throttled_value AND 0xffff))) (\<lambda>current_issues.
     bind_err (analyze_throttled (Some (drop_bit 16 throttled_value))) (\<lambda>past_issues.
     bind_err (if py_truth (PStr past_issues)
               then py_add (PList [PStr ''Past Issues:'']) (PStr past_issues)
               else Inr (PList [])) (\<lambda>past_part.
     bind_err (py_add (PStr current_issues) past_part) (\<lambda>combined_issues.
       if py_truth (PStr current_issues) then py_join ''; '' (PStr current_issues)
       else Inr ''OK''))))"

definition get_power_status :: "system \<Rightarrow> PowerMonitor \<Rightarrow> (py_error + string) \<times> PowerMonitor" where
  "get_power_status sys self =
     (case get_throttled_status sys of
        None \<Rightarrow> (Inr ''Unable to determine power status'', self)
      | Some throttled_value \<Rightarrow>
          (case last_throttled self of
             None \<Rightarrow> (Inr ''Checking status'', self\<lparr>last_throttled := Some throttled_value\<rparr>)
           | Some stored \<Rightarrow>
               (power_status_label throttled_value,
                if stored \<noteq> throttled_value then self\<lparr>last_throttled := Some throttled_value\<rparr>
                else self)))"

section \<open>raspberry_monitor: the monitoring loop\<close>

text \<open>
  The body of \<open>while True\<close> in \<open>raspberry_monitor\<close>, up to the call of
  \<open>update_display\<close>: the result is the tuple of arguments handed to the display and the
  two objects. Nothing in the loop catches an exception, so an exception raised by one
  of the calls leaves the loop and ends the program: the result is then \<open>Inl\<close>.
\<close>

type_synonym display_args = "real \<times> real \<times> real \<times> real option \<times> real \<times> string"

definition loop_body ::
    "system \<Rightarrow> RaspberryMonitor \<times> PowerMonitor \<Rightarrow>
       py_error + display_args \<times> RaspberryMonitor \<times> PowerMonitor" where
  "loop_body sys state =
     (let monitor = fst state; power_monitor = snd state;
          cpu_temp = get_cpu_temp sys
      in case get_cpu_usage sys monitor of
           (Inl e, _) \<Rightarrow> Inl e
         | (Inr cpu_usage, monitor1) \<Rightarrow>
             bind_err (get_ram_usage monitor1) (\<lambda>ram_usage.
             bind_err (get_disk_usage sys) (\<lambda>disk_usage.
               case get_network_speed sys monitor1 of
                 (Inl e, _) \<Rightarrow> Inl e
               | (Inr (download_speed, upload_speed), monitor2) \<Rightarrow>
                   bind_err (analyze_throttled (get_throttled_status sys)) (\<lambda>power_status.
                     Inr ((cpu_temp, cpu_usage, ram_usage, disk_usage, download_speed, power_status),
                          monitor2, power_monitor)))))"

text \<open>
  \<open>raspberry_monitor\<close>: the two objects are built (the display object is not
  modelled), then the loop runs. It has no exit of its own, so a run is observed over a
  finite list of machine states, one for each tick: the result is the list of tuples
  handed to the display, and \<open>None\<close> when the program is still running after these
  ticks, or the exception that ended it.
\<close>

fun monitoring_loop ::
    "system list \<Rightarrow> RaspberryMonitor \<times> PowerMonitor \<Rightarrow> display_args list \<times> py_error option" where
  "monitoring_loop [] state = ([], None)"
| "monitoring_loop (sys # later) state =
     (case loop_body sys state of
        Inl e \<Rightarrow> ([], Some e)
      | Inr (shown, state') \<Rightarrow>
          (case monitoring_loop later state' of (rest, outcome) \<Rightarrow> (shown # rest, outcome)))"

definition raspberry_monitor :: "system \<Rightarrow> system list \<Rightarrow> display_args list \<times> py_error option" where
  "raspberry_monitor boot ticks =
     (case RaspberryMonitor_init boot of
        Inl e \<Rightarrow> ([], Some e)
      | Inr monitor \<Rightarrow> monitoring_loop ticks (monitor, PowerMonitor_init))"

text \<open>A machine on which every read succeeds, for the concrete evaluations below.\<close>

definition healthy_system :: system where
  "healthy_system =
     \<lparr>files = [''/proc/stat'' \<mapsto> [''cpu  120 0 60 800 15 0 5 0 0 0'', ''cpu0 120 0 60 800 15 0 5 0 0 0''],
               ''/proc/meminfo'' \<mapsto> [''MemTotal:        2000 kB'', ''MemFree:          100 kB'',
                                        ''MemAvailable:    500 kB''],
               ''/sys/class/net/wlan0/statistics/rx_bytes'' \<mapsto> [''3072''],
               ''/sys/class/net/wlan0/statistics/tx_bytes'' \<mapsto> [''2048'']],
      ip_route = Inr (0, [''1.0.0.0 via 192.168.1.1 dev wlan0 src 192.168.1.50 uid 1000'', ''    cache'']),
      sensor_temperature = 45,
      shutil_disk_usage = Inr (1000, 250, 750),
      vcgencmd = Inr (0, ''throttled=0x0'')\<rparr>"

section \<open>Concrete machines and objects\<close>

text \<open>
  The monitor as \<open>__init__\<close> leaves it on the healthy machine, the same monitor after
  one tick there, and four machines on which one read fails or is malformed.
\<close>

definition fresh_monitor :: RaspberryMonitor where
  "fresh_monitor =
     \<lparr>prev_cpu_stats = None,
      prev_net_stats = [''rx'' \<mapsto> 0, ''tx'' \<mapsto> 0],
      mem_info = [''MemTotal'' \<mapsto> 2000, ''MemFree'' \<mapsto> 100, ''MemAvailable'' \<mapsto> 500],
      net_interface = ''wlan0''\<rparr>"

definition after_first_tick :: RaspberryMonitor where
  "after_first_tick =
     fresh_monitor\<lparr>prev_cpu_stats := Some [120, 0, 60, 800, 15, 0, 5, 0, 0, 0],
                    prev_net_stats := [''rx'' \<mapsto> 3072, ''tx'' \<mapsto> 2048]\<rparr>"

definition short_stat_system :: system where
  "short_stat_system =
     healthy_system\<lparr>files := (files healthy_system)(''/proc/stat'' \<mapsto> [''cpu 5''])\<rparr>"

definition unreadable_stat_system :: system where
  "unreadable_stat_system =
     healthy_system\<lparr>files := (files healthy_system)(''/proc/stat'' := None)\<rparr>"

definition unreadable_rx_system :: system where
  "unreadable_rx_system =
     healthy_system\<lparr>files :=
       (files healthy_system)(''/sys/class/net/wlan0/statistics/rx_bytes'' := None)\<rparr>"

definition no_throttled_system :: system where
  "no_throttled_system = healthy_system\<lparr>vcgencmd := Inl OSError\<rparr>"

section \<open>Evaluation on the concrete machines\<close>

lemmas string_evals = py_int_def py_int0_def strip_sign_def signed_def prefixed_digits_def
  digit_of_def c_isspace_def py_strip_def py_split_def py_isspace_def py_rstrip_colon_def
  get_first_line_def

lemma init_healthy: "RaspberryMonitor_init healthy_system = Inr fresh_monitor"
  by (simp add: RaspberryMonitor_init_def get_memory_info_def healthy_system_def bind_err_def
      fresh_monitor_def get_active_network_interface_def string_evals)

lemma healthy_rx:
  "py_int (get_first_line healthy_system
     (''/sys/class/net/'' @ get_active_network_interface healthy_system @ ''/statistics/rx_bytes''))
   = Inr 3072"
  by (simp add: healthy_system_def get_active_network_interface_def string_evals)

lemma healthy_tx:
  "py_int (get_first_line healthy_system
     (''/sys/class/net/'' @ get_active_network_interface healthy_system @ ''/statistics/tx_bytes''))
   = Inr 2048"
  by (simp add: healthy_system_def get_active_network_interface_def string_evals)

lemma healthy_cpu_stats:
  "read_cpu_stats healthy_system = Inr [120, 0, 60, 800, 15, 0, 5, 0, 0, 0]"
  by (simp add: read_cpu_stats_def healthy_system_def string_evals)

lemma short_cpu_stats: "read_cpu_stats short_stat_system = Inr [5]"
  by (simp add: read_cpu_stats_def short_stat_system_def healthy_system_def string_evals)

lemma unreadable_cpu_stats: "read_cpu_stats unreadable_stat_system = Inr []"
  by (simp add: read_cpu_stats_def unreadable_stat_system_def healthy_system_def string_evals)

lemma healthy_interface: "get_active_network_interface healthy_system = ''wlan0''"
  by (simp add: get_active_network_interface_def healthy_system_def py_split_def py_isspace_def)

lemma healthy_throttled: "get_throttled_status healthy_system = Some 0"
  by (simp add: get_throttled_status_def healthy_system_def bind_err_def py_index_def string_evals)

text \<open>The empty string is not a number: \<open>int('')\<close> raises ValueError.\<close>

lemma py_int_empty: "py_int [] = Inl ValueError"
  by (simp add: py_int_def strip_sign_def signed_def)

section \<open>analyze_throttled\<close>

lemma and_pow2_bit: "(v :: int) AND 2 ^ n \<noteq> 0 \<longleftrightarrow> bit v n"
  by (simp add: and_exp_eq_0_iff_not_bit)

lemma and_consts_bit:
  "((v :: int) AND 1 \<noteq> 0) = bit v 0"
  "((v :: int) AND 2 \<noteq> 0) = bit v 1"
  "((v :: int) AND 4 \<noteq> 0) = bit v 2"
  "((v :: int) AND 8 \<noteq> 0) = bit v 3"
  using and_pow2_bit [of v 0] and_pow2_bit [of v 1] and_pow2_bit [of v 2] and_pow2_bit [of v 3]
  by simp_all

text \<open>
  C6. For every integer, \<open>analyze_throttled\<close> reports the first set bit in the order
  bit 0 (Undervolt), bit 1 (Freq cap), bit 2 (Throttled), bit 3 (Temp limit), whatever
  the other bits are, and OK when none of the four is set. On 0b1001, where bits 0 and
  3 are set, the answer is Undervolt.
\<close>

theorem analyze_throttled_priority:
  "analyze_throttled (Some v) =
     Inr (if bit v 0 then ''Undervolt''
          else if bit v 1 then ''Freq cap''
          else if bit v 2 then ''Throttled''
          else if bit v 3 then ''Temp limit''
          else ''OK'')
   \<and> analyze_throttled (Some 0b1001) = Inr ''Undervolt''"
  by (simp add: analyze_throttled_def and_consts_bit)

text \<open>
  C10. On a non-negative integer \<open>analyze_throttled\<close> returns, without raising, one of
  the five labels, and two non-negative integers with the same bits 0 to 3 get the
  same label.
\<close>

theorem analyze_throttled_labels_low_bits:
  assumes "0 \<le> v" and "0 \<le> w" and "\<forall>i\<in>{0, 1, 2, 3}. bit v i = bit w i"
  shows "analyze_throttled (Some v)
           \<in> Inr ` {''Undervolt'', ''Freq cap'', ''Throttled'', ''Temp limit'', ''OK''}
       \<and> analyze_throttled (Some w) = analyze_throttled (Some v)"
  using assms(3) by (simp add: analyze_throttled_def and_consts_bit)

theorem analyze_throttled_labels_low_bits_witness:
  "(0::int) \<le> 13 \<and> (0::int) \<le> 29
   \<and> analyze_throttled (Some 13) = Inr ''Undervolt''
   \<and> analyze_throttled (Some 29) = analyze_throttled (Some 13)"
  using analyze_throttled_labels_low_bits [of 13 29]
  by (simp add: analyze_throttled_def)

section \<open>get_power_status\<close>

lemma analyze_throttled_nonempty:
  "\<exists>label. analyze_throttled (Some v) = Inr label \<and> label \<noteq> []"
  by (simp add: analyze_throttled_def)

text \<open>
  Both labels are non-empty strings, so the branch \<open>["Past Issues:"] + past_issues\<close>
  is always taken, and a list plus a string raises TypeError.
\<close>

lemma power_status_label_raises: "power_status_label v = Inl TypeError"
proof -
  obtain current_issues where c: "analyze_throttled (Some (v AND 0xffff)) = Inr current_issues"
    using analyze_throttled_nonempty by blast
  obtain past_issues where p: "analyze_throttled (Some (drop_bit 16 v)) = Inr past_issues"
      and ne: "past_issues \<noteq> []"
    using analyze_throttled_nonempty by blast
  show ?thesis
    by (simp add: power_status_label_def c p ne bind_err_def)
qed

lemma get_power_status_first_call:
  assumes "get_throttled_status sys = Some v" and "last_throttled self = None"
  shows "get_power_status sys self = (Inr ''Checking status'', self\<lparr>last_throttled := Some v\<rparr>)"
  using assms by (simp add: get_power_status_def)

lemma get_power_status_later_calls:
  assumes "get_throttled_status sys = Some v" and "last_throttled self = Some stored"
  shows "fst (get_power_status sys self) = Inl TypeError"
  using assms by (simp add: get_power_status_def power_status_label_raises)

lemma get_power_status_unavailable:
  assumes "get_throttled_status sys = None"
  shows "get_power_status sys self = (Inr ''Unable to determine power status'', self)"
  using assms by (simp add: get_power_status_def)

text \<open>
  C1. On a new \<open>PowerMonitor\<close>, with the throttled value 0 read twice: the first call
  of \<open>get_power_status\<close> stores 0 and returns "Checking status"; the second call does
  not return "OK" (nor any label), it raises TypeError.
\<close>

theorem get_power_status_second_call_raises:
  "get_throttled_status healthy_system = Some 0
   \<and> get_power_status healthy_system PowerMonitor_init
       = (Inr ''Checking status'', \<lparr>last_throttled = Some 0\<rparr>)
   \<and> get_power_status healthy_system \<lparr>last_throttled = Some 0\<rparr>
       = (Inl TypeError, \<lparr>last_throttled = Some 0\<rparr>)"
  by (simp add: get_power_status_def healthy_throttled PowerMonitor_init_def
      power_status_label_raises)

section \<open>get_ram_usage\<close>

text \<open>
  C3, as stated, fails twice: a \<open>MemTotal\<close> entry that is 0 is not replaced by 1, the
  division raises ZeroDivisionError; and with no entries at all the result is 100, not 0.
\<close>

theorem get_ram_usage_counterexample:
  "get_ram_usage (fresh_monitor\<lparr>mem_info := [''MemTotal'' \<mapsto> 0, ''MemAvailable'' \<mapsto> 0]\<rparr>)
     = Inl ZeroDivisionError
   \<and> get_ram_usage (fresh_monitor\<lparr>mem_info := Map.empty\<rparr>) = Inr 100"
  by (simp add: get_ram_usage_def py_truediv_def bind_err_def)

text \<open>
  C3, amended. With total the \<open>MemTotal\<close> entry, or 1 when the entry is missing, and
  available the \<open>MemAvailable\<close> entry, or 0 when it is missing: whenever total is not 0,
  \<open>get_ram_usage\<close> returns (total - available) / total * 100. For MemTotal 2000 and
  MemAvailable 500 this is 75.
\<close>

theorem get_ram_usage_formula:
  assumes "mem_info self ''MemTotal'' \<noteq> Some 0"
  shows "get_ram_usage self =
           (let total_memory = (case mem_info self ''MemTotal'' of None \<Rightarrow> 1 | Some t \<Rightarrow> t);
                available_memory = (case mem_info self ''MemAvailable'' of None \<Rightarrow> 0 | Some a \<Rightarrow> a)
            in Inr (real_of_int (total_memory - available_memory) / real_of_int total_memory * 100))"
  using assms
  by (auto simp: get_ram_usage_def py_truediv_def bind_err_def Let_def split: option.splits)

theorem get_ram_usage_formula_witness:
  "mem_info fresh_monitor ''MemTotal'' \<noteq> Some 0
   \<and> mem_info fresh_monitor ''MemTotal'' = Some 2000
   \<and> mem_info fresh_monitor ''MemAvailable'' = Some 500
   \<and> get_ram_usage fresh_monitor = Inr 75"
  using get_ram_usage_formula [of fresh_monitor]
  by (simp add: fresh_monitor_def)

section \<open>get_disk_usage\<close>

text \<open>
  C9. When the disk query succeeds with a total that is not 0, \<open>get_disk_usage\<close>
  returns used / total * 100; when it succeeds with total 0, it returns 0; when the
  query raises, it returns \<open>None\<close>. It never raises.
\<close>

theorem get_disk_usage_cases:
  "(shutil_disk_usage sys = Inr (total_bytes, used_bytes, free_bytes) \<and> total_bytes \<noteq> 0 \<longrightarrow>
      get_disk_usage sys = Inr (Some (real_of_int used_bytes / real_of_int total_bytes * 100)))
   \<and> (shutil_disk_usage sys = Inr (0, used_bytes, free_bytes) \<longrightarrow>
      get_disk_usage sys = Inr (Some 0))
   \<and> (shutil_disk_usage sys = Inl e \<longrightarrow> get_disk_usage sys = Inr None)"
  by (simp add: get_disk_usage_def py_truediv_def bind_err_def)

theorem get_disk_usage_cases_witness:
  "get_disk_usage healthy_system = Inr (Some 25)
   \<and> get_disk_usage (healthy_system\<lparr>shutil_disk_usage := Inr (0, 0, 0)\<rparr>) = Inr (Some 0)
   \<and> get_disk_usage (healthy_system\<lparr>shutil_disk_usage := Inl OSError\<rparr>) = Inr None"
  using get_disk_usage_cases [of healthy_system 1000 250 750 OSError]
    get_disk_usage_cases [of "healthy_system\<lparr>shutil_disk_usage := Inr (0, 0, 0)\<rparr>" 1 0 0 OSError]
    get_disk_usage_cases [of "healthy_system\<lparr>shutil_disk_usage := Inl OSError\<rparr>" 1 0 0 OSError]
  by (simp add: healthy_system_def)

section \<open>get_network_speed\<close>

text \<open>
  C7. When the two counter files of the active interface hold the numbers
  \<open>rx_bytes\<close> and \<open>tx_bytes\<close>, and the stored counters are \<open>prev_rx\<close> and
  \<open>prev_tx\<close>, \<open>get_network_speed\<close> returns ((rx_bytes - prev_rx) / 1024,
  (tx_bytes - prev_tx) / 1024) and stores the current counters in place of the previous
  ones, with no condition. From stored 1024 and 2048 and current 3072 and 2048 it
  returns (2, 0).
\<close>

theorem get_network_speed_delta:
  assumes "py_int (get_first_line sys (''/sys/class/net/'' @ get_active_network_interface sys
             @ ''/statistics/rx_bytes'')) = Inr rx_bytes"
    and "py_int (get_first_line sys (''/sys/class/net/'' @ get_active_network_interface sys
             @ ''/statistics/tx_bytes'')) = Inr tx_bytes"
    and "prev_net_stats self ''rx'' = Some prev_rx"
    and "prev_net_stats self ''tx'' = Some prev_tx"
  shows "get_network_speed sys self =
           (Inr (real_of_int (rx_bytes - prev_rx) / 1024, real_of_int (tx_bytes - prev_tx) / 1024),
            self\<lparr>net_interface := get_active_network_interface sys,
                 prev_net_stats := (prev_net_stats self)(''rx'' \<mapsto> rx_bytes, ''tx'' \<mapsto> tx_bytes)\<rparr>)"
  using assms by (simp add: get_network_speed_def Let_def)

theorem get_network_speed_delta_witness:
  "get_network_speed healthy_system
     (fresh_monitor\<lparr>prev_net_stats := [''rx'' \<mapsto> 1024, ''tx'' \<mapsto> 2048]\<rparr>) =
     (Inr (2, 0), fresh_monitor\<lparr>prev_net_stats := [''rx'' \<mapsto> 3072, ''tx'' \<mapsto> 2048]\<rparr>)"
  using get_network_speed_delta [OF healthy_rx healthy_tx,
      of "fresh_monitor\<lparr>prev_net_stats := [''rx'' \<mapsto> 1024, ''tx'' \<mapsto> 2048]\<rparr>" 1024 2048]
  by (simp add: fresh_monitor_def healthy_interface)

text \<open>
  C8. A monitor that \<open>__init__\<close> has just built stores the counters rx 0 and tx 0, so
  its first \<open>get_network_speed\<close> returns the whole current counters divided by 1024.
\<close>

theorem first_network_speed_since_boot:
  assumes "RaspberryMonitor_init sys0 = Inr self"
    and "py_int (get_first_line sys (''/sys/class/net/'' @ get_active_network_interface sys
             @ ''/statistics/rx_bytes'')) = Inr rx_bytes"
    and "py_int (get_first_line sys (''/sys/class/net/'' @ get_active_network_interface sys
             @ ''/statistics/tx_bytes'')) = Inr tx_bytes"
  shows "prev_net_stats self = [''rx'' \<mapsto> 0, ''tx'' \<mapsto> 0]
       \<and> fst (get_network_speed sys self)
           = Inr (real_of_int rx_bytes / 1024, real_of_int tx_bytes / 1024)"
proof -
  from assms(1) have seed: "prev_net_stats self = [''rx'' \<mapsto> 0, ''tx'' \<mapsto> 0]"
    by (auto simp: RaspberryMonitor_init_def bind_err_def split: sum.splits)
  then have "prev_net_stats self ''rx'' = Some 0" and "prev_net_stats self ''tx'' = Some 0"
    by simp_all
  with assms(2,3) have "fst (get_network_speed sys self) =
      Inr (real_of_int (rx_bytes - 0) / 1024, real_of_int (tx_bytes - 0) / 1024)"
    by (simp add: get_network_speed_def Let_def)
  with seed show ?thesis by simp
qed

theorem first_network_speed_since_boot_witness:
  "RaspberryMonitor_init healthy_system = Inr fresh_monitor
   \<and> prev_net_stats fresh_monitor = [''rx'' \<mapsto> 0, ''tx'' \<mapsto> 0]
   \<and> fst (get_network_speed healthy_system fresh_monitor) = Inr (3, 2)"
  using first_network_speed_since_boot [OF init_healthy healthy_rx healthy_tx] init_healthy
  by simp

section \<open>get_cpu_usage\<close>

lemma sum_list_self_deltas:
  "sum_list (map (\<lambda>(current, prev). current - prev) (zip xs xs)) = (0::int)"
  by (induction xs) simp_all

lemma nonneg_nth_le_sum_list:
  fixes xs :: "int list"
  assumes "\<forall>x\<in>set xs. 0 \<le> x" and "i < length xs"
  shows "xs ! i \<le> sum_list xs"
  using assms
proof (induction xs arbitrary: i)
  case Nil
  then show ?case by simp
next
  case (Cons x xs)
  have rest: "0 \<le> sum_list xs"
    using Cons.prems(1) by (simp add: sum_list_nonneg)
  show ?case
  proof (cases i)
    case 0
    with rest show ?thesis by simp
  next
    case (Suc j)
    with Cons.prems have "xs ! j \<le> sum_list xs"
      by (intro Cons.IH) simp_all
    moreover have "0 \<le> x" using Cons.prems(1) by simp
    ultimately show ?thesis using Suc by simp
  qed
qed

lemma deltas_nonneg:
  assumes "list_all2 (\<le>) prev cpu_stats"
  shows "\<forall>d\<in>set (map (\<lambda>(current, prev). current - prev) (zip cpu_stats prev)). (0::int) \<le> d"
  using assms by (induction rule: list_all2_induct) simp_all

lemma usage_in_range:
  fixes idle_time total_time :: int
  assumes "0 \<le> idle_time" and "idle_time \<le> total_time" and "total_time \<noteq> 0"
  shows "0 \<le> (1 - real_of_int idle_time / real_of_int total_time) * 100"
    and "(1 - real_of_int idle_time / real_of_int total_time) * 100 \<le> 100"
proof -
  define q where "q = real_of_int idle_time / real_of_int total_time"
  have pos: "0 < real_of_int total_time" using assms by simp
  have "q \<le> 1"
    unfolding q_def using assms pos by (simp add: divide_le_eq_1)
  moreover have "0 \<le> q"
    unfolding q_def using assms pos by simp
  ultimately have "0 \<le> (1 - q) * 100" and "(1 - q) * 100 \<le> 100"
    by simp_all
  then show "0 \<le> (1 - real_of_int idle_time / real_of_int total_time) * 100"
    and "(1 - real_of_int idle_time / real_of_int total_time) * 100 \<le> 100"
    by (simp_all only: q_def)
qed

text \<open>
  C4, as stated, fails. With the one-field line \<open>cpu 5\<close> the first call returns 0 and
  stores the sample, but the second call with the same sample raises IndexError at
  \<open>deltas[3]\<close>. And not every call stores the sample it read: after a first call on
  the healthy machine, a call that finds /proc/stat unreadable reads the empty sample,
  raises IndexError and leaves the stored sample as it was.
\<close>

theorem get_cpu_usage_counterexample:
  "get_cpu_usage short_stat_system fresh_monitor
     = (Inr 0, fresh_monitor\<lparr>prev_cpu_stats := Some [5]\<rparr>)
   \<and> get_cpu_usage short_stat_system (fresh_monitor\<lparr>prev_cpu_stats := Some [5]\<rparr>)
       = (Inl IndexError, fresh_monitor\<lparr>prev_cpu_stats := Some [5]\<rparr>)
   \<and> get_cpu_usage healthy_system fresh_monitor
       = (Inr 0, fresh_monitor\<lparr>prev_cpu_stats := Some [120, 0, 60, 800, 15, 0, 5, 0, 0, 0]\<rparr>)
   \<and> read_cpu_stats unreadable_stat_system = Inr []
   \<and> get_cpu_usage unreadable_stat_system
         (fresh_monitor\<lparr>prev_cpu_stats := Some [120, 0, 60, 800, 15, 0, 5, 0, 0, 0]\<rparr>)
       = (Inl IndexError, fresh_monitor\<lparr>prev_cpu_stats := Some [120, 0, 60, 800, 15, 0, 5, 0, 0, 0]\<rparr>)"
  by (simp add: get_cpu_usage_def short_cpu_stats unreadable_cpu_stats healthy_cpu_stats
      py_index_def fresh_monitor_def)

text \<open>
  C4, amended. When /proc/stat yields the sample: a monitor with no stored sample
  returns 0 and stores the sample; a following call with the same sample returns 0
  again when the sample has at least four fields (or none); and every call made with
  nothing stored (\<open>None\<close> or the empty list), or with at least four fields both in
  the sample and in the stored one, returns a number and leaves the sample stored.
\<close>

theorem get_cpu_usage_cold_start:
  assumes "read_cpu_stats sys = Inr sample"
  shows "(prev_cpu_stats self = None \<longrightarrow>
            get_cpu_usage sys self = (Inr 0, self\<lparr>prev_cpu_stats := Some sample\<rparr>))
       \<and> (sample = [] \<or> 4 \<le> length sample \<longrightarrow>
            get_cpu_usage sys (self\<lparr>prev_cpu_stats := Some sample\<rparr>)
              = (Inr 0, self\<lparr>prev_cpu_stats := Some sample\<rparr>))
       \<and> (prev_cpu_stats self = None \<or> prev_cpu_stats self = Some []
            \<or> (\<exists>prev. prev_cpu_stats self = Some prev \<and> 4 \<le> length sample \<and> 4 \<le> length prev) \<longrightarrow>
            (\<exists>usage. get_cpu_usage sys self = (Inr usage, self\<lparr>prev_cpu_stats := Some sample\<rparr>)))"
proof (intro conjI impI)
  assume "prev_cpu_stats self = None"
  with assms show "get_cpu_usage sys self = (Inr 0, self\<lparr>prev_cpu_stats := Some sample\<rparr>)"
    by (simp add: get_cpu_usage_def)
next
  assume "sample = [] \<or> 4 \<le> length sample"
  then show "get_cpu_usage sys (self\<lparr>prev_cpu_stats := Some sample\<rparr>)
      = (Inr 0, self\<lparr>prev_cpu_stats := Some sample\<rparr>)"
  proof
    assume "sample = []"
    with assms show ?thesis by (simp add: get_cpu_usage_def)
  next
    assume "4 \<le> length sample"
    with assms show ?thesis
      by (auto simp: get_cpu_usage_def Let_def py_index_def sum_list_self_deltas)
  qed
next
  assume "prev_cpu_stats self = None \<or> prev_cpu_stats self = Some []
            \<or> (\<exists>prev. prev_cpu_stats self = Some prev \<and> 4 \<le> length sample \<and> 4 \<le> length prev)"
  then consider "prev_cpu_stats self = None \<or> prev_cpu_stats self = Some []"
    | prev where "prev_cpu_stats self = Some prev" "prev \<noteq> []"
        "4 \<le> length sample" "4 \<le> length prev"
    by auto
  then show "\<exists>usage. get_cpu_usage sys self = (Inr usage, self\<lparr>prev_cpu_stats := Some sample\<rparr>)"
  proof cases
    case 1
    with assms show ?thesis by (auto simp: get_cpu_usage_def)
  next
    case 2
    with assms show ?thesis
      by (auto simp: get_cpu_usage_def Let_def py_index_def py_truediv_def bind_err_def)
  qed
qed

theorem get_cpu_usage_cold_start_witness:
  "read_cpu_stats healthy_system = Inr [120, 0, 60, 800, 15, 0, 5, 0, 0, 0]
   \<and> prev_cpu_stats fresh_monitor = None
   \<and> get_cpu_usage healthy_system fresh_monitor
       = (Inr 0, fresh_monitor\<lparr>prev_cpu_stats := Some [120, 0, 60, 800, 15, 0, 5, 0, 0, 0]\<rparr>)
   \<and> get_cpu_usage healthy_system
         (fresh_monitor\<lparr>prev_cpu_stats := Some [120, 0, 60, 800, 15, 0, 5, 0, 0, 0]\<rparr>)
       = (Inr 0, fresh_monitor\<lparr>prev_cpu_stats := Some [120, 0, 60, 800, 15, 0, 5, 0, 0, 0]\<rparr>)"
  using get_cpu_usage_cold_start [OF healthy_cpu_stats, of fresh_monitor] healthy_cpu_stats
  by (simp add: fresh_monitor_def)

text \<open>
  C5. When the stored sample and the current one have the same length, at least four
  fields, and no field of the current sample is below the stored one,
  \<open>get_cpu_usage\<close> returns a number (it raises nothing, ZeroDivisionError included)
  between 0 and 100, and stores the current sample; when the total of the deltas is 0
  the number is 0.
\<close>

theorem get_cpu_usage_bounds:
  assumes "read_cpu_stats sys = Inr cpu_stats"
    and "prev_cpu_stats self = Some prev"
    and "list_all2 (\<le>) prev cpu_stats"
    and "4 \<le> length cpu_stats"
  shows "\<exists>usage. get_cpu_usage sys self = (Inr usage, self\<lparr>prev_cpu_stats := Some cpu_stats\<rparr>)
           \<and> 0 \<le> usage \<and> usage \<le> 100
           \<and> (sum_list (map (\<lambda>(current, prev). current - prev) (zip cpu_stats prev)) = 0
                \<longrightarrow> usage = 0)"
proof -
  define deltas where "deltas = map (\<lambda>(current, prev). current - prev) (zip cpu_stats prev)"
  define total_time where "total_time = sum_list deltas"
  have len: "length prev = length cpu_stats"
    using assms(3) by (rule list_all2_lengthD)
  then have len_deltas: "3 < length deltas"
    using assms(4) by (simp add: deltas_def)
  then have idx: "py_index deltas 3 = Inr (deltas ! 3)"
    by (simp add: py_index_def)
  have nonneg: "\<forall>d\<in>set deltas. 0 \<le> d"
    unfolding deltas_def using assms(3) by (rule deltas_nonneg)
  have idle_lo: "0 \<le> deltas ! 3"
    using nonneg len_deltas by (simp add: all_set_conv_all_nth)
  have idle_hi: "deltas ! 3 \<le> total_time"
    unfolding total_time_def using nonneg len_deltas by (rule nonneg_nth_le_sum_list)
  have not_cold: "prev \<noteq> []"
    using len assms(4) by auto
  define usage where "usage = (if total_time \<noteq> 0
    then (1 - real_of_int (deltas ! 3) / real_of_int total_time) * 100 else 0)"
  have run: "get_cpu_usage sys self = (Inr usage, self\<lparr>prev_cpu_stats := Some cpu_stats\<rparr>)"
    using assms(1,2) not_cold idx
    by (simp add: get_cpu_usage_def Let_def deltas_def [symmetric] total_time_def [symmetric]
        usage_def py_truediv_def bind_err_def)
  have "0 \<le> usage" and "usage \<le> 100"
    using usage_in_range [OF idle_lo idle_hi] by (simp_all add: usage_def)
  moreover have "total_time = 0 \<longrightarrow> usage = 0"
    by (simp add: usage_def)
  ultimately show ?thesis
    using run by (simp add: total_time_def deltas_def)
qed

theorem get_cpu_usage_bounds_witness:
  "list_all2 (\<le>) [100, 0, 50, 740, 10, 0, 0, 0, 0, 0] [120, 0, 60, 800, 15, 0, 5, 0, 0, (0::int)]
   \<and> get_cpu_usage healthy_system
         (fresh_monitor\<lparr>prev_cpu_stats := Some [100, 0, 50, 740, 10, 0, 0, 0, 0, 0]\<rparr>)
      = (Inr 40, fresh_monitor\<lparr>prev_cpu_stats := Some [120, 0, 60, 800, 15, 0, 5, 0, 0, 0]\<rparr>)
   \<and> (0::real) \<le> 40 \<and> (40::real) \<le> 100"
  using get_cpu_usage_bounds [OF healthy_cpu_stats,
      of "fresh_monitor\<lparr>prev_cpu_stats := Some [100, 0, 50, 740, 10, 0, 0, 0, 0, 0]\<rparr>"
         "[100, 0, 50, 740, 10, 0, 0, 0, 0, 0]"]
  by (simp add: get_cpu_usage_def healthy_cpu_stats py_index_def py_truediv_def bind_err_def)

section \<open>The monitoring loop\<close>

lemmas tick_evals = loop_body_def get_cpu_usage_def read_cpu_stats_def get_ram_usage_def
  get_disk_usage_def get_network_speed_def analyze_throttled_def get_throttled_status_def
  get_cpu_temp_def py_truediv_def py_index_def bind_err_def Let_def
  get_active_network_interface_def fresh_monitor_def after_first_tick_def healthy_system_def
  no_throttled_system_def unreadable_rx_system_def unreadable_stat_system_def string_evals

lemma healthy_first_tick:
  "loop_body healthy_system (fresh_monitor, PowerMonitor_init) =
     Inr ((45, 0, 75, Some 25, 3, ''OK''), after_first_tick, PowerMonitor_init)"
  by (simp add: tick_evals)

lemma healthy_second_tick:
  "loop_body healthy_system (after_first_tick, PowerMonitor_init) =
     Inr ((45, 0, 75, Some 25, 0, ''OK''), after_first_tick, PowerMonitor_init)"
  by (simp add: tick_evals)

lemma no_throttled_status: "get_throttled_status no_throttled_system = None"
  by (simp add: get_throttled_status_def no_throttled_system_def bind_err_def)

lemma no_throttled_tick:
  "loop_body no_throttled_system (after_first_tick, PowerMonitor_init) = Inl TypeError"
  by (simp add: tick_evals)

lemma unreadable_rx_line:
  "get_first_line unreadable_rx_system ''/sys/class/net/wlan0/statistics/rx_bytes'' = []"
  by (simp add: get_first_line_def unreadable_rx_system_def)

lemma unreadable_rx_tick:
  "loop_body unreadable_rx_system (after_first_tick, PowerMonitor_init) = Inl ValueError"
  by (simp add: tick_evals)

text \<open>
  An unreadable /proc/stat, once a sample is stored, ends the loop as well: the empty
  sample has no \<open>deltas[3]\<close>.
\<close>

lemma unreadable_stat_tick:
  "loop_body unreadable_stat_system (after_first_tick, PowerMonitor_init) = Inl IndexError"
  by (simp add: tick_evals)

text \<open>
  C2. Three ticks on the healthy machine hand three tuples to the display and the
  program runs on. When in the second tick only the throttled status is unavailable,
  that tick raises TypeError, since the loop passes \<open>None\<close> to \<open>analyze_throttled\<close>;
  when in the second tick only the rx counter file is unreadable, \<open>get_first_line\<close>
  gives the empty string and the tick raises ValueError at \<open>int('')\<close>. Nothing
  catches either exception: it leaves the loop, and the third tick never happens.
\<close>

theorem loop_body_read_failure_raises:
  "raspberry_monitor healthy_system [healthy_system, healthy_system, healthy_system]
     = ([(45, 0, 75, Some 25, 3, ''OK''), (45, 0, 75, Some 25, 0, ''OK''),
         (45, 0, 75, Some 25, 0, ''OK'')], None)
   \<and> get_throttled_status no_throttled_system = None
   \<and> loop_body no_throttled_system (after_first_tick, PowerMonitor_init) = Inl TypeError
   \<and> raspberry_monitor healthy_system [healthy_system, no_throttled_system, healthy_system]
       = ([(45, 0, 75, Some 25, 3, ''OK'')], Some TypeError)
   \<and> get_first_line unreadable_rx_system ''/sys/class/net/wlan0/statistics/rx_bytes'' = []
   \<and> loop_body unreadable_rx_system (after_first_tick, PowerMonitor_init) = Inl ValueError
   \<and> raspberry_monitor healthy_system [healthy_system, unreadable_rx_system, healthy_system]
       = ([(45, 0, 75, Some 25, 3, ''OK'')], Some ValueError)"
  by (simp add: raspberry_monitor_def init_healthy healthy_first_tick healthy_second_tick
      no_throttled_tick unreadable_rx_tick unreadable_rx_line no_throttled_status)

end
